theory Spec2Isabelle
  imports Main "HOL-Library.Word" "HOL-Library.Sublist"
begin

section \<open>The token model (lexer.hxx)\<close>

text \<open>
  \<^verbatim>\<open>enum class TokenType\<close> of lexer.hxx, one constructor per enumerator, in the order
  of the declaration. The enumerators \<^verbatim>\<open>If\<close> and \<^verbatim>\<open>Func\<close> are written \<open>If'\<close> and
  \<open>Func'\<close>, since HOL has constants of these names.
\<close>

datatype TokenType =
    Number
  | Bool
  | String
  | Const
  | Var
  | Func'
  | EndStatement
  | If'
  | Else
  | While
  | Equals
  | UnaryOperator
  | BinaryOperator
  | OpenParen
  | CloseParen
  | OpenBracket
  | CloseBracket
  | Identifier
  | Comment
  | EndOfLine
  | EndOfFile
  | Invalid

text \<open>
  The enumerators in declaration order, and \<^verbatim>\<open>static_cast<int>\<close> on an enumerator: no
  enumerator has an initialiser, so the first is 0 and each next one is one more.
\<close>

definition TokenType_members :: "TokenType list" where
  "TokenType_members =
     [Number, Bool, String, Const, Var, Func', EndStatement, If', Else, While,
      Equals, UnaryOperator, BinaryOperator, OpenParen, CloseParen, OpenBracket,
      CloseBracket, Identifier, Comment, EndOfLine, EndOfFile, Invalid]"

fun ordinal :: "TokenType \<Rightarrow> nat" where
  "ordinal Number = 0"
| "ordinal Bool = 1"
| "ordinal String = 2"
| "ordinal Const = 3"
| "ordinal Var = 4"
| "ordinal Func' = 5"
| "ordinal EndStatement = 6"
| "ordinal If' = 7"
| "ordinal Else = 8"
| "ordinal While = 9"
| "ordinal Equals = 10"
| "ordinal UnaryOperator = 11"
| "ordinal BinaryOperator = 12"
| "ordinal OpenParen = 13"
| "ordinal CloseParen = 14"
| "ordinal OpenBracket = 15"
| "ordinal CloseBracket = 16"
| "ordinal Identifier = 17"
| "ordinal Comment = 18"
| "ordinal EndOfLine = 19"
| "ordinal EndOfFile = 20"
| "ordinal Invalid = 21"

text \<open>\<^verbatim>\<open>struct Token { TokenType type; std::string value; }\<close>\<close>

record Token =
  type :: TokenType
  "value" :: string

subsection \<open>The token-spelling table (lexer.cxx, lines 24 to 45)\<close>

text \<open>
  \<^verbatim>\<open>struct TokenIdentifier\<close> has the single member \<^verbatim>\<open>indentifiers\<close>, a vector of
  strings, so a slot of the table is a list of strings. The definition of the static array
  gives 20 initialisers, from Number to EndOfLine; \<open>{{}}\<close> is an empty vector.
\<close>

definition tk_identifiers_initializers :: "string list list" where
  "tk_identifiers_initializers =
     [ [],
       [],
       [],
       [''const''],
       [''zylo''],
       [''func''],
       [''over''],
       [''if''],
       [''else''],
       [''while''],
       [''=''],
       [''++'', ''--'', ''!''],
       [''+'', ''-'', ''*'', ''/'', ''%'', ''=='', ''!='', ''>'', ''<'', ''>='', ''<='',
        ''**'', ''&&'', ''||''],
       [''(''],
       ['')''],
       [''[''],
       ['']''],
       [],
       [''#''],
       [[CHR 0x0A], [CHR 0x0D], '';''] ]"

text \<open>
  The array is declared with \<^verbatim>\<open>static_cast<int>(TokenType::Invalid)\<close> elements. Aggregate
  initialisation value-initialises every element that has no initialiser: its vector is
  empty.
\<close>

definition tk_identifiers :: "string list list" where
  "tk_identifiers =
     tk_identifiers_initializers
       @ replicate (ordinal Invalid - length tk_identifiers_initializers) []"

section \<open>Escape transforms (lexer.cxx, lines 47 to 99)\<close>

text \<open>
  Both functions mutate their argument; the model returns the new string. The index
  \<^verbatim>\<open>chridx\<close> is an \<^verbatim>\<open>int\<close> that starts at 0 and only grows while it is below the size of
  the string, so it is a natural number here; that is exact for strings of fewer than
  \<open>2 ^ 31\<close> characters, where the \<^verbatim>\<open>int\<close> cannot overflow.

  \<^verbatim>\<open>string.erase(string.begin() + pos)\<close> removes the character at \<open>pos\<close>, and
  \<^verbatim>\<open>string.insert(pos, t)\<close> puts \<open>t\<close> in front of the character at \<open>pos\<close>.
\<close>

definition erase :: "string \<Rightarrow> nat \<Rightarrow> string" where
  "erase s pos = take pos s @ drop (Suc pos) s"

definition insert_at :: "string \<Rightarrow> nat \<Rightarrow> string \<Rightarrow> string" where
  "insert_at s pos t = take pos s @ t @ drop pos s"

text \<open>
  The loop of \<^verbatim>\<open>process_escape_characters\<close>. \<open>CHR 0x5C\<close> is the backslash, \<open>CHR 0x0A\<close> the
  newline and \<open>CHR 0x09\<close> the tab. The size of the string is read again at every test of
  the loop condition, so the recursion carries the current string.
\<close>

function process_loop :: "nat \<Rightarrow> string \<Rightarrow> string" where
  "process_loop chridx string =
     (if chridx < length string then
        (let chr = string ! chridx in
         if chr = CHR 0x5C \<and> chridx < length string - 1 then
           (let nextchr = string ! (chridx + 1);
                replchr = (if nextchr = CHR ''n'' then CHR 0x0A
                           else if nextchr = CHR ''t'' then CHR 0x09
                           else CHR '' '')
            in if replchr \<noteq> CHR '' '' then
                 process_loop (chridx + 1) (erase (string[chridx := replchr]) (chridx + 1))
               else process_loop (chridx + 1) string)
         else process_loop (chridx + 1) string)
      else string)"
  by pat_completeness auto
termination
  by (relation "measure (\<lambda>(chridx, string). length string - chridx)")
     (auto simp: erase_def)

definition process_escape_characters :: "string \<Rightarrow> string" where
  "process_escape_characters string = process_loop 0 string"

text \<open>
  The loop of \<^verbatim>\<open>unprocess_escape_characters\<close>: after an insertion the body increments
  the index once more than the loop header does.
\<close>

function unprocess_loop :: "nat \<Rightarrow> string \<Rightarrow> string" where
  "unprocess_loop chridx string =
     (if chridx < length string then
        (let chr = string ! chridx;
             inststr = (if chr = CHR 0x0A then [CHR 0x5C, CHR ''n'']
                        else if chr = CHR 0x09 then [CHR 0x5C, CHR ''t'']
                        else [])
         in if inststr \<noteq> [] then
              unprocess_loop (chridx + 1 + 1) (insert_at (erase string chridx) chridx inststr)
            else unprocess_loop (chridx + 1) string)
      else string)"
  by pat_completeness auto
termination
  by (relation "measure (\<lambda>(chridx, string). length string - chridx)")
     (auto simp: erase_def insert_at_def)

definition unprocess_escape_characters :: "string \<Rightarrow> string" where
  "unprocess_escape_characters string = unprocess_loop 0 string"

section \<open>The identifier scanner (lexer.cxx, lines 101 to 226)\<close>

datatype IdentifierType = Alpha | Numeric | Symbolic | Unknown

definition skpchrs :: "char list" where
  "skpchrs = [CHR '' '', CHR 0x09, CHR 0x00]"

definition nonchainablechrs :: "char list" where
  "nonchainablechrs = [CHR ''('', CHR '')'', CHR ''['', CHR '']'']"

definition isskpchr :: "char \<Rightarrow> bool" where
  "isskpchr chr = (chr \<in> set skpchrs)"

definition isunchainablechr :: "char \<Rightarrow> bool" where
  "isunchainablechr chr = (chr \<in> set nonchainablechrs)"

text \<open>
  The value of a \<^verbatim>\<open>char\<close> in arithmetic and comparisons, after integer promotion. The
  sources target the Windows console API, where \<^verbatim>\<open>char\<close> is signed: bytes from 0x80 are
  negative.
\<close>

definition char_value :: "char \<Rightarrow> int" where
  "char_value chr = sint (of_char chr :: 8 word)"

definition determineidtype :: "char \<Rightarrow> IdentifierType" where
  "determineidtype chr =
     (if chr = CHR ''_''
         \<or> (char_value chr \<ge> char_value CHR ''A'' \<and> char_value chr \<le> char_value CHR ''Z'')
         \<or> (char_value chr \<ge> char_value CHR ''a'' \<and> char_value chr \<le> char_value CHR ''z'')
      then Alpha
      else if chr = CHR ''.'' \<or> chr = CHR ''-''
                \<or> (char_value chr \<ge> char_value CHR ''0'' \<and> char_value chr \<le> char_value CHR ''9'')
      then Numeric
      else Symbolic)"

text \<open>
  The local variables of \<^verbatim>\<open>extract_identifier\<close> that the loop changes. \<^verbatim>\<open>nextidend\<close> is a
  \<^verbatim>\<open>size_t\<close>: a 64-bit word, whose arithmetic wraps around.
\<close>

record scan_state =
  idtype :: IdentifierType
  nextid :: string
  nextidend :: "64 word"
  isstr :: bool
  iscomment :: bool

definition initial_state :: scan_state where
  "initial_state =
     \<lparr>idtype = Unknown, nextid = [], nextidend = 0, isstr = False, iscomment = False\<rparr>"

text \<open>
  How an iteration of the range-for loop ends: \<open>Break\<close> for \<^verbatim>\<open>break\<close>, \<open>Continue\<close> for
  \<^verbatim>\<open>continue\<close> and for reaching the end of the body.
\<close>

datatype flow = Continue | Break

text \<open>\<^verbatim>\<open>nextidend++\<close> and \<^verbatim>\<open>nextid += chr\<close>.\<close>

definition advance :: "scan_state \<Rightarrow> scan_state" where
  "advance st = st\<lparr>nextidend := nextidend st + 1\<rparr>"

definition append_chr :: "char \<Rightarrow> scan_state \<Rightarrow> scan_state" where
  "append_chr chr st = st\<lparr>nextid := nextid st @ [chr]\<rparr>"

text \<open>
  \<^verbatim>\<open>nextid[0]\<close>: on an empty \<^verbatim>\<open>std::string\<close>, \<^verbatim>\<open>operator[]\<close> at the position \<open>size()\<close>
  gives the terminating NUL character.
\<close>

definition first_chr :: "string \<Rightarrow> char" where
  "first_chr s = (case s of [] \<Rightarrow> CHR 0x00 | c # _ \<Rightarrow> c)"

text \<open>
  Lines 212 to 218, then line 222: the test that ends a lexeme when the class of the
  character changes; otherwise the character is appended and the index advances.
\<close>

definition chain_step :: "char \<Rightarrow> scan_state \<Rightarrow> flow \<times> scan_state" where
  "chain_step chr st =
     (let currentidtype = determineidtype chr in
      if (idtype st = Symbolic \<and> currentidtype \<noteq> Symbolic)
         \<or> (idtype st \<noteq> Symbolic \<and> (currentidtype = Symbolic \<or> chr = CHR ''-''))
      then (Break, st)
      else (Continue, advance (append_chr chr st)))"

text \<open>Lines 196 to 211, which go on into the block above.\<close>

definition classify_step :: "char \<Rightarrow> scan_state \<Rightarrow> flow \<times> scan_state" where
  "classify_step chr st =
     (let currentidtype = determineidtype chr in
      if idtype st = Unknown then
        (Continue, advance (append_chr chr (st\<lparr>idtype := currentidtype\<rparr>)))
      else if idtype st = Numeric then
        (if first_chr (nextid st) = CHR ''-'' \<and> chr = CHR ''-'' then
           (Break, append_chr chr (advance st))
         else if length (nextid st) > 0 \<and> (chr = CHR ''-'' \<or> currentidtype \<noteq> Numeric) then
           (Break, st)
         else chain_step chr st)
      else chain_step chr st)"

text \<open>
  Lines 191 and 192, the statements of the string-capture branch: \<^verbatim>\<open>nextidend++\<close> and
  then \<^verbatim>\<open>nextidend += chr\<close>, which converts the value of the character to \<^verbatim>\<open>size_t\<close>.
\<close>

definition index_jump :: "char \<Rightarrow> scan_state \<Rightarrow> scan_state" where
  "index_jump chr st = st\<lparr>nextidend := nextidend st + 1 + of_int (char_value chr)\<rparr>"

text \<open>
  Lines 189 to 195: \<^verbatim>\<open>if (isstr) { ...; continue; }\<close>, and otherwise on to line 196.
  The body of the branch is the parameter \<open>jump\<close>, so that a theorem can speak of the
  function with another body in its place; the source's function is the instance with
  \<open>index_jump\<close>.
\<close>

definition capture_step ::
  "(char \<Rightarrow> scan_state \<Rightarrow> scan_state) \<Rightarrow> char \<Rightarrow> scan_state \<Rightarrow> flow \<times> scan_state" where
  "capture_step jump chr st =
     (if isstr st then (Continue, jump chr st) else classify_step chr st)"

text \<open>
  Lines 169 to 195, the block under \<^verbatim>\<open>if (isskpchr(chr) || isstr)\<close>: the quote and comment
  tests. \<open>CHR 0x22\<close> is the double quote.
\<close>

definition accumulate_step ::
  "(char \<Rightarrow> scan_state \<Rightarrow> scan_state) \<Rightarrow> char \<Rightarrow> scan_state \<Rightarrow> flow \<times> scan_state" where
  "accumulate_step jump chr st =
     (if \<not> iscomment st then
        (if chr = CHR 0x22 then
           (if isstr st then (Break, advance st)
            else capture_step jump chr (st\<lparr>isstr := True\<rparr>))
         else if chr = CHR ''#'' then
           (let st' = st\<lparr>iscomment := True\<rparr> in
            if length (nextid st') > 0 then (Break, st') else (Continue, advance st'))
         else capture_step jump chr st)
      else classify_step chr st)"

text \<open>The body of the loop, lines 151 to 222.\<close>

definition loop_body ::
  "(char \<Rightarrow> scan_state \<Rightarrow> scan_state) \<Rightarrow> char \<Rightarrow> scan_state \<Rightarrow> flow \<times> scan_state" where
  "loop_body jump chr st =
     (if iscomment st then
        (if chr = CHR 0x0A then (Break, advance st) else (Continue, advance st))
      else if isunchainablechr chr then
        (if nextidend st = 0 then (Break, append_chr chr (advance st)) else (Break, st))
      else if isskpchr chr \<or> isstr st then accumulate_step jump chr st
      else if length (nextid st) > 0 then (Break, st)
      else (Continue, advance st))"

text \<open>\<^verbatim>\<open>for (auto chr : line)\<close>: the loop does not change \<^verbatim>\<open>line\<close>.\<close>

fun for_loop ::
  "(char \<Rightarrow> scan_state \<Rightarrow> scan_state) \<Rightarrow> string \<Rightarrow> scan_state \<Rightarrow> scan_state" where
  "for_loop jump [] st = st"
| "for_loop jump (chr # rest) st =
     (case loop_body jump chr st of
        (Break, st') \<Rightarrow> st'
      | (Continue, st') \<Rightarrow> for_loop jump rest st')"

text \<open>
  \<^verbatim>\<open>line.substr(pos)\<close> throws \<^verbatim>\<open>std::out_of_range\<close> when \<open>pos\<close> is beyond the size of the
  string, and is the rest of the string from \<open>pos\<close> otherwise.
\<close>

datatype error = out_of_range

definition substr :: "string \<Rightarrow> 64 word \<Rightarrow> error + string" where
  "substr s pos = (if unat pos > length s then Inl out_of_range else Inr (drop (unat pos) s))"

text \<open>
  The result is the returned lexeme together with the new value of \<^verbatim>\<open>line\<close>, or the
  exception. The parameter \<^verbatim>\<open>separator\<close> is never read by the source.
\<close>

definition extract_identifier_with ::
  "(char \<Rightarrow> scan_state \<Rightarrow> scan_state) \<Rightarrow> string \<Rightarrow> char \<Rightarrow> error + string \<times> string" where
  "extract_identifier_with jump line separator =
     (let st = for_loop jump line initial_state in
      case substr line (nextidend st) of
        Inl e \<Rightarrow> Inl e
      | Inr line' \<Rightarrow> Inr (nextid st, line'))"

definition extract_identifier :: "string \<Rightarrow> char \<Rightarrow> error + string \<times> string" where
  "extract_identifier = extract_identifier_with index_jump"

section \<open>The tokenizer driver\<close>

text \<open>
  Modelled from the spec: \<^verbatim>\<open>tokenize\<close> and \<^verbatim>\<open>determine_token_type\<close> are declared in
  lexer.hxx, and no source file defines them. The specification says of
  \<^verbatim>\<open>tokenize\<close>: it drives \<^verbatim>\<open>extract_identifier\<close> repeatedly over the full source until it
  is exhausted, classifies each non-empty lexeme via \<^verbatim>\<open>determine_token_type\<close>, appends the
  resulting tokens to an output sequence, and appends a final EndOfFile token with empty
  value once input is exhausted. The classifier is a parameter of the model. The loop is a
  partial function: \<open>None\<close> stands for a run that never ends, and an exception of
  \<^verbatim>\<open>extract_identifier\<close> ends the run.
\<close>

partial_function (option) tokenize_loop ::
  "(string \<Rightarrow> Token) \<Rightarrow> string \<Rightarrow> Token list \<Rightarrow> (error + Token list) option" where
  "tokenize_loop determine_token_type line tokens =
     (if line = [] then Some (Inr tokens)
      else
        (case extract_identifier line CHR '' '' of
           Inl e \<Rightarrow> Some (Inl e)
         | Inr (next_id, line') \<Rightarrow>
             tokenize_loop determine_token_type line'
               (if next_id = [] then tokens else tokens @ [determine_token_type next_id])))"

definition tokenize ::
  "(string \<Rightarrow> Token) \<Rightarrow> string \<Rightarrow> (error + Token list) option" where
  "tokenize determine_token_type src =
     (case tokenize_loop determine_token_type src [] of
        None \<Rightarrow> None
      | Some (Inl e) \<Rightarrow> Some (Inl e)
      | Some (Inr tokens) \<Rightarrow> Some (Inr (tokens @ [\<lparr>type = EndOfFile, value = []\<rparr>])))"

section \<open>The memory tracker (memory.hxx)\<close>

text \<open>
  \<^verbatim>\<open>class Memory\<close> has the single member \<^verbatim>\<open>std::vector<void *> pointers\<close>. An address is
  a natural number.
\<close>

type_synonym pointer = nat

record Memory =
  pointers :: "pointer list"

text \<open>
  \<^verbatim>\<open>create<Type>\<close>, lines 62 to 68. The first argument is the address that \<^verbatim>\<open>new Type()\<close>
  returned: a call whose allocation throws does not reach \<^verbatim>\<open>push_back\<close> and is no call
  of this function.
\<close>

definition create :: "pointer \<Rightarrow> Memory \<Rightarrow> pointer \<times> Memory" where
  "create pointer m = (pointer, m\<lparr>pointers := pointers m @ [pointer]\<rparr>)"

text \<open>
  Modelled from the spec: the constructor \<^verbatim>\<open>Memory()\<close> is declared in memory.hxx and
  defined in no source file. A newly constructed tracker tracks nothing: its vector is
  default-constructed.
\<close>

definition Memory_new :: Memory where
  "Memory_new = \<lparr>pointers = []\<rparr>"

text \<open>
  Modelled from the spec: \<^verbatim>\<open>clear\<close> is declared in memory.hxx and defined in no source
  file. The specification: for every tracked address, it releases the underlying storage,
  then empties the tracked list. The result is the list of the addresses released, in
  order, and the tracker afterwards.
\<close>

definition clear :: "Memory \<Rightarrow> pointer list \<times> Memory" where
  "clear m = (pointers m, m\<lparr>pointers := []\<rparr>)"

text \<open>
  Modelled from the spec: \<^verbatim>\<open>pointers_count\<close> is declared in memory.hxx, with the result
  type \<^verbatim>\<open>int\<close>, and defined in no source file. The specification: it returns the number
  of currently tracked addresses, with no side effect.
\<close>

definition pointers_count :: "Memory \<Rightarrow> int" where
  "pointers_count m = int (length (pointers m))"

section \<open>Console utilities and entry point (terminal.cxx, main.cxx)\<close>

text \<open>
  The constants of constants.hxx that the console reads, and \<^verbatim>\<open>std::endl\<close>, which writes a
  newline.
\<close>

definition ZYLO_VERSION :: string where
  "ZYLO_VERSION = ''1.0.0''"

definition DEFAULT_LANGUAGE_NAME :: string where
  "DEFAULT_LANGUAGE_NAME = ''Zylo''"

definition endl :: string where
  "endl = [CHR 0x0A]"

text \<open>
  Modelled from the spec: color.hxx, which declares \<^verbatim>\<open>SetConsoleColor\<close> and the colours
  \<^verbatim>\<open>GREEN\<close> and \<^verbatim>\<open>WHITE\<close>, is not among the sources. The specification names a palette with
  green and white, and a default colour made of the three primary channels at full
  intensity (\<^verbatim>\<open>FOREGROUND_RED | FOREGROUND_GREEN | FOREGROUND_BLUE\<close> in terminal.cxx).
\<close>

datatype console_color = GREEN | WHITE | FOREGROUND_RED_GREEN_BLUE

text \<open>
  What the process can see and change: the window title, how often the screen was cleared,
  the current colour, the characters written to standard output and to the error stream,
  and the characters of standard input not yet read.
\<close>

record console =
  title :: string
  screen_clears :: nat
  color :: console_color
  cout :: string
  cerr :: string
  cin :: string

definition SetConsoleTitleA :: "string \<Rightarrow> console \<Rightarrow> console" where
  "SetConsoleTitleA s c = c\<lparr>title := s\<rparr>"

definition SetConsoleColor :: "console_color \<Rightarrow> console \<Rightarrow> console" where
  "SetConsoleColor k c = c\<lparr>color := k\<rparr>"

text \<open>\<^verbatim>\<open>system("cls")\<close>; the source ignores its result.\<close>

definition system_cls :: "console \<Rightarrow> console" where
  "system_cls c = c\<lparr>screen_clears := screen_clears c + 1\<rparr>"

text \<open>\<^verbatim>\<open>std::cout << s\<close> and \<^verbatim>\<open>std::cerr << s\<close>.\<close>

definition write_cout :: "string \<Rightarrow> console \<Rightarrow> console" where
  "write_cout s c = c\<lparr>cout := cout c @ s\<rparr>"

definition write_cerr :: "string \<Rightarrow> console \<Rightarrow> console" where
  "write_cerr s c = c\<lparr>cerr := cerr c @ s\<rparr>"

text \<open>
  \<^verbatim>\<open>std::getline(std::cin, input)\<close>: the characters up to the first newline, or up to the
  end of the input when there is none; the newline is taken from the input and not stored.
\<close>

definition getline :: "console \<Rightarrow> string \<times> console" where
  "getline c =
     (takeWhile (\<lambda>ch. ch \<noteq> CHR 0x0A) (cin c),
      c\<lparr>cin := drop 1 (dropWhile (\<lambda>ch. ch \<noteq> CHR 0x0A) (cin c))\<rparr>)"

text \<open>\<^verbatim>\<open>zylo_terminal::info\<close>, \<^verbatim>\<open>zylo_terminal::init\<close> and \<^verbatim>\<open>zylo_terminal::input\<close>.\<close>

definition info :: "console \<Rightarrow> int \<times> console" where
  "info c =
     (let c = SetConsoleColor GREEN c;
          c = write_cout (DEFAULT_LANGUAGE_NAME @ '' '' @ ZYLO_VERSION @ endl) c;
          c = SetConsoleColor WHITE c;
          c = write_cout (''Type 'exit' to quit the interpreter.'' @ endl) c;
          c = SetConsoleColor WHITE c;
          c = write_cout (''Type 'help' for a list of available commands.'' @ endl) c;
          c = SetConsoleColor FOREGROUND_RED_GREEN_BLUE c
      in (0, c))"

definition init :: "console \<Rightarrow> int \<times> console" where
  "init c =
     (let c = SetConsoleTitleA DEFAULT_LANGUAGE_NAME c;
          c = system_cls c;
          (_, c) = info c
      in (0, c))"

definition input :: "string \<Rightarrow> console \<Rightarrow> string \<times> console" where
  "input prompt c =
     (let c = write_cout prompt c;
          c = SetConsoleColor FOREGROUND_RED_GREEN_BLUE c
      in getline c)"

text \<open>\<^verbatim>\<open>main\<close>: the result is the exit status and the console afterwards.\<close>

definition main :: "console \<Rightarrow> int \<times> console" where
  "main c =
     (let (status, c) = init c in
      if status \<noteq> 0 then
        (1, write_cerr (''Error initializing terminal.'' @ endl) c)
      else
        (let (userCommand, c) = input ''>>> '' c;
             c = write_cout (''You entered: '' @ userCommand @ endl) c
         in (0, c)))"

text \<open>What \<^verbatim>\<open>info\<close> writes to standard output: the banner.\<close>

definition banner :: string where
  "banner =
     ''Zylo 1.0.0'' @ [CHR 0x0A]
     @ ''Type 'exit' to quit the interpreter.'' @ [CHR 0x0A]
     @ ''Type 'help' for a list of available commands.'' @ [CHR 0x0A]"

section \<open>Auxiliary notions for the proofs\<close>

text \<open>
  The state of the scanner at the head of every iteration: no flag is set, the lexeme is
  not longer than the index, and the lexeme is empty with the class unknown, or made of
  skip characters with the class symbolic.
\<close>

definition scanning :: "scan_state \<Rightarrow> bool" where
  "scanning st \<longleftrightarrow>
     \<not> isstr st \<and> \<not> iscomment st \<and> length (nextid st) \<le> unat (nextidend st)
     \<and> (if nextid st = [] then idtype st = Unknown
         else idtype st = Symbolic \<and> set (nextid st) \<subseteq> set skpchrs)"

definition lexeme_shape :: "string \<Rightarrow> bool" where
  "lexeme_shape s \<longleftrightarrow>
     s = [] \<or> (\<exists>c. isunchainablechr c \<and> s = [c]) \<or> (s \<noteq> [] \<and> set s \<subseteq> set skpchrs)"

text \<open>
  The escape transforms as recursions over the characters still to be read: what the two
  index loops compute, as \<open>process_loop_chars\<close> and \<open>unprocess_loop_chars\<close> show.
\<close>

fun process_chars :: "string \<Rightarrow> string" where
  "process_chars (c # d # cs) =
     (if c = CHR 0x5C \<and> d = CHR ''n'' then CHR 0x0A # process_chars cs
      else if c = CHR 0x5C \<and> d = CHR ''t'' then CHR 0x09 # process_chars cs
      else c # process_chars (d # cs))"
| "process_chars cs = cs"

fun unprocess_chars :: "string \<Rightarrow> string" where
  "unprocess_chars [] = []"
| "unprocess_chars (c # cs) =
     (if c = CHR 0x0A then CHR 0x5C # CHR ''n'' # unprocess_chars cs
      else if c = CHR 0x09 then CHR 0x5C # CHR ''t'' # unprocess_chars cs
      else c # unprocess_chars cs)"

section \<open>Properties of the token model\<close>

text \<open>
  Claim C4. The token-spelling table has exactly 21 slots, one per token type below
  Invalid, indexed by the ordinal of the type. The slot of Var holds the single literal
  zylo, the slot of EndOfFile (the one slot without an initialiser) is empty, and every
  other slot holds the literals of the specification's table: nothing for Number, Bool,
  String and Identifier, the keywords const, func, over, if, else, while, the operators,
  the four groupers, the comment marker, and newline, carriage return and the semicolon for
  EndOfLine.
\<close>

theorem tk_identifiers_table:
  "length tk_identifiers = 21
   \<and> length tk_identifiers = ordinal Invalid
   \<and> tk_identifiers ! ordinal Number = []
   \<and> tk_identifiers ! ordinal Bool = []
   \<and> tk_identifiers ! ordinal String = []
   \<and> tk_identifiers ! ordinal Const = [''const'']
   \<and> tk_identifiers ! ordinal Var = [''zylo'']
   \<and> tk_identifiers ! ordinal Func' = [''func'']
   \<and> tk_identifiers ! ordinal EndStatement = [''over'']
   \<and> tk_identifiers ! ordinal If' = [''if'']
   \<and> tk_identifiers ! ordinal Else = [''else'']
   \<and> tk_identifiers ! ordinal While = [''while'']
   \<and> tk_identifiers ! ordinal Equals = [''='']
   \<and> tk_identifiers ! ordinal UnaryOperator = [''++'', ''--'', ''!'']
   \<and> tk_identifiers ! ordinal BinaryOperator =
        [''+'', ''-'', ''*'', ''/'', ''%'', ''=='', ''!='', ''>'', ''<'', ''>='', ''<='',
         ''**'', ''&&'', ''||'']
   \<and> tk_identifiers ! ordinal OpenParen = [''('']
   \<and> tk_identifiers ! ordinal CloseParen = ['')'']
   \<and> tk_identifiers ! ordinal OpenBracket = [''['']
   \<and> tk_identifiers ! ordinal CloseBracket = ['']'']
   \<and> tk_identifiers ! ordinal Identifier = []
   \<and> tk_identifiers ! ordinal Comment = [''#'']
   \<and> tk_identifiers ! ordinal EndOfLine = [[CHR 0x0A], [CHR 0x0D], '';'']
   \<and> tk_identifiers ! ordinal EndOfFile = []"
  by (simp add: tk_identifiers_def tk_identifiers_initializers_def)

text \<open>
  Claim C5, as amended. The enumeration TokenType is closed and has exactly 22 members (not
  21): the 21 token types Number to EndOfFile, with the ordinals 0 to 20 that index the
  spelling table, and the sentinel Invalid with ordinal 21. Their order is Number, Bool,
  String, Const, Var, Func, EndStatement, If, Else, While, Equals, UnaryOperator,
  BinaryOperator, OpenParen, CloseParen, OpenBracket, CloseBracket, Identifier, Comment,
  EndOfLine, EndOfFile, Invalid.
\<close>

theorem TokenType_members_closed:
  "set TokenType_members = UNIV
   \<and> distinct TokenType_members
   \<and> length TokenType_members = 22
   \<and> card (UNIV :: TokenType set) = 22
   \<and> map ordinal TokenType_members = [0 ..< 22]
   \<and> TokenType_members =
        [Number, Bool, String, Const, Var, Func', EndStatement, If', Else, While,
         Equals, UnaryOperator, BinaryOperator, OpenParen, CloseParen, OpenBracket,
         CloseBracket, Identifier, Comment, EndOfLine, EndOfFile, Invalid]"
proof -
  have all: "set TokenType_members = UNIV"
  proof -
    have "t \<in> set TokenType_members" for t
      by (cases t) (simp_all add: TokenType_members_def)
    then show ?thesis by blast
  qed
  have dist: "distinct TokenType_members"
    by (simp add: TokenType_members_def)
  have len: "length TokenType_members = 22"
    by (simp add: TokenType_members_def)
  have "card (UNIV :: TokenType set) = card (set TokenType_members)"
    by (simp only: all)
  also have "\<dots> = length TokenType_members"
    using dist by (rule distinct_card)
  finally have card: "card (UNIV :: TokenType set) = 22"
    by (simp only: len)
  have ords: "map ordinal TokenType_members = [0 ..< 22]"
    by (simp add: TokenType_members_def upt_rec)
  show ?thesis
    using all dist len card ords by (simp add: TokenType_members_def)
qed

text \<open>
  The claim as the specification words it fails: the 22 names it lists are 22 distinct
  members, so the enumeration does not have exactly 21.
\<close>

theorem TokenType_21_members_counterexample:
  "\<not> (card (UNIV :: TokenType set) = 21 \<or> length TokenType_members = 21)"
proof -
  have all: "set TokenType_members = UNIV"
  proof -
    have "t \<in> set TokenType_members" for t
      by (cases t) (simp_all add: TokenType_members_def)
    then show ?thesis by blast
  qed
  have "card (UNIV :: TokenType set) = card (set TokenType_members)"
    by (simp only: all)
  also have "\<dots> = length TokenType_members"
    by (rule distinct_card) (simp add: TokenType_members_def)
  also have "\<dots> = 22"
    by (simp add: TokenType_members_def)
  finally show ?thesis
    by (simp add: TokenType_members_def)
qed

section \<open>Properties of the escape transforms\<close>

declare process_loop.simps [simp del] unprocess_loop.simps [simp del]

lemma process_loop_done:
  "length string \<le> chridx \<Longrightarrow> process_loop chridx string = string"
  by (subst process_loop.simps) simp

lemma process_loop_step:
  assumes "chridx < length string"
  shows "process_loop chridx string =
     (if string ! chridx = CHR 0x5C \<and> Suc chridx < length string
          \<and> string ! Suc chridx = CHR ''n''
      then process_loop (Suc chridx)
             (take chridx string @ CHR 0x0A # drop (Suc (Suc chridx)) string)
      else if string ! chridx = CHR 0x5C \<and> Suc chridx < length string
          \<and> string ! Suc chridx = CHR ''t''
      then process_loop (Suc chridx)
             (take chridx string @ CHR 0x09 # drop (Suc (Suc chridx)) string)
      else process_loop (Suc chridx) string)"
proof -
  have upd: "erase (string[chridx := c]) (Suc chridx)
      = take chridx string @ c # drop (Suc (Suc chridx)) string" for c
    using assms by (simp add: erase_def take_Suc_conv_app_nth)
  have lt: "chridx < length string - Suc 0 \<longleftrightarrow> Suc chridx < length string"
    by auto
  show ?thesis
    by (subst process_loop.simps) (simp add: assms Let_def upd lt)
qed

lemma process_loop_chars:
  "chridx \<le> length string \<Longrightarrow>
     process_loop chridx string = take chridx string @ process_chars (drop chridx string)"
proof (induction "length string - chridx" arbitrary: chridx string rule: less_induct)
  case less
  show ?case
  proof (cases "chridx < length string")
    case False
    with less.prems show ?thesis
      by (simp add: process_loop_done)
  next
    case inside: True
    have hd: "drop chridx string = string ! chridx # drop (Suc chridx) string"
      using inside by (simp add: Cons_nth_drop_Suc)
    have tk: "take (Suc chridx) string = take chridx string @ [string ! chridx]"
      using inside by (simp add: take_Suc_conv_app_nth)
    have keep: "process_loop (Suc chridx) string
        = take chridx string @ string ! chridx # process_chars (drop (Suc chridx) string)"
      using less.hyps [of string "Suc chridx"] inside by (simp add: tk)
    have repl: "process_loop (Suc chridx)
          (take chridx string @ c # drop (Suc (Suc chridx)) string)
        = take chridx string @ c # process_chars (drop (Suc (Suc chridx)) string)"
      if "Suc chridx < length string" for c
      using less.hyps [of "take chridx string @ c # drop (Suc (Suc chridx)) string" "Suc chridx"]
        that
      by (simp add: min_def)
    show ?thesis
    proof (cases "string ! chridx = CHR 0x5C \<and> Suc chridx < length string")
      case False
      then have "process_chars (drop chridx string)
          = string ! chridx # process_chars (drop (Suc chridx) string)"
        by (cases "drop (Suc chridx) string") (auto simp: hd)
      with False keep show ?thesis
        by (auto simp: process_loop_step [OF inside])
    next
      case True
      then have hd2: "drop (Suc chridx) string
          = string ! Suc chridx # drop (Suc (Suc chridx)) string"
        by (simp add: Cons_nth_drop_Suc)
      from True repl keep show ?thesis
        by (simp add: process_loop_step [OF inside] hd hd2)
    qed
  qed
qed

lemma unprocess_loop_done:
  "length string \<le> chridx \<Longrightarrow> unprocess_loop chridx string = string"
  by (subst unprocess_loop.simps) simp

lemma unprocess_loop_step:
  assumes "chridx < length string"
  shows "unprocess_loop chridx string =
     (if string ! chridx = CHR 0x0A
      then unprocess_loop (Suc (Suc chridx))
             (take chridx string @ CHR 0x5C # CHR ''n'' # drop (Suc chridx) string)
      else if string ! chridx = CHR 0x09
      then unprocess_loop (Suc (Suc chridx))
             (take chridx string @ CHR 0x5C # CHR ''t'' # drop (Suc chridx) string)
      else unprocess_loop (Suc chridx) string)"
proof -
  have upd: "insert_at (erase string chridx) chridx t
      = take chridx string @ t @ drop (Suc chridx) string" for t
    using assms by (simp add: insert_at_def erase_def)
  show ?thesis
    by (subst unprocess_loop.simps) (simp add: assms Let_def upd)
qed

lemma unprocess_loop_chars:
  "chridx \<le> length string \<Longrightarrow>
     unprocess_loop chridx string = take chridx string @ unprocess_chars (drop chridx string)"
proof (induction "length string - chridx" arbitrary: chridx string rule: less_induct)
  case less
  show ?case
  proof (cases "chridx < length string")
    case False
    with less.prems show ?thesis
      by (simp add: unprocess_loop_done)
  next
    case inside: True
    have hd: "drop chridx string = string ! chridx # drop (Suc chridx) string"
      using inside by (simp add: Cons_nth_drop_Suc)
    have tk: "take (Suc chridx) string = take chridx string @ [string ! chridx]"
      using inside by (simp add: take_Suc_conv_app_nth)
    have keep: "unprocess_loop (Suc chridx) string
        = take chridx string @ string ! chridx # unprocess_chars (drop (Suc chridx) string)"
      using less.hyps [of string "Suc chridx"] inside by (simp add: tk)
    have ins: "unprocess_loop (Suc (Suc chridx))
          (take chridx string @ c # d # drop (Suc chridx) string)
        = take chridx string @ c # d # unprocess_chars (drop (Suc chridx) string)" for c d
      using less.hyps [of "take chridx string @ c # d # drop (Suc chridx) string"
          "Suc (Suc chridx)"] inside
      by (simp add: min_def)
    from keep ins show ?thesis
      by (simp add: unprocess_loop_step [OF inside] hd)
  qed
qed

lemma unprocess_process_chars:
  "CHR 0x0A \<notin> set s \<Longrightarrow> CHR 0x09 \<notin> set s \<Longrightarrow>
     unprocess_chars (process_chars s) = s"
  by (induction s rule: process_chars.induct) auto

text \<open>
  Claim C6. For every string \<open>s\<close> made of ordinary characters and of the two-character
  escape sequences backslash-n and backslash-t, so in particular with no literal newline
  and no literal tab, \<^verbatim>\<open>process_escape_characters\<close> followed by
  \<^verbatim>\<open>unprocess_escape_characters\<close> gives \<open>s\<close> back. The proof needs only that \<open>s\<close> has no
  literal newline and no literal tab; a backslash may stand anywhere. The bound on the
  length is the range in which the \<^verbatim>\<open>int\<close> index of the source cannot overflow.
\<close>

theorem escape_round_trip:
  assumes "CHR 0x0A \<notin> set s" and "CHR 0x09 \<notin> set s" and "length s < 2 ^ 31"
  shows "unprocess_escape_characters (process_escape_characters s) = s"
  using unprocess_process_chars [OF assms(1,2)]
  by (simp add: unprocess_escape_characters_def process_escape_characters_def
      process_loop_chars unprocess_loop_chars)

theorem escape_round_trip_witness:
  "CHR 0x0A \<notin> set [CHR ''a'', CHR 0x5C, CHR ''n'', CHR ''b'', CHR 0x5C, CHR ''t'']
   \<and> CHR 0x09 \<notin> set [CHR ''a'', CHR 0x5C, CHR ''n'', CHR ''b'', CHR 0x5C, CHR ''t'']
   \<and> length [CHR ''a'', CHR 0x5C, CHR ''n'', CHR ''b'', CHR 0x5C, CHR ''t''] < (2::nat) ^ 31
   \<and> process_escape_characters [CHR ''a'', CHR 0x5C, CHR ''n'', CHR ''b'', CHR 0x5C, CHR ''t'']
       = [CHR ''a'', CHR 0x0A, CHR ''b'', CHR 0x09]
   \<and> unprocess_escape_characters
         (process_escape_characters [CHR ''a'', CHR 0x5C, CHR ''n'', CHR ''b'', CHR 0x5C, CHR ''t''])
       = [CHR ''a'', CHR 0x5C, CHR ''n'', CHR ''b'', CHR 0x5C, CHR ''t'']"
proof -
  let ?s = "[CHR ''a'', CHR 0x5C, CHR ''n'', CHR ''b'', CHR 0x5C, CHR ''t'']"
  have h1: "CHR 0x0A \<notin> set ?s" by simp
  have h2: "CHR 0x09 \<notin> set ?s" by simp
  have h3: "length ?s < (2::nat) ^ 31" by simp
  have p: "process_escape_characters ?s = [CHR ''a'', CHR 0x0A, CHR ''b'', CHR 0x09]"
    by code_simp
  from escape_round_trip [OF h1 h2 h3] h1 h2 h3 p show ?thesis
    by blast
qed

section \<open>Properties of the identifier scanner\<close>

lemmas scanner_defs =
  extract_identifier_def extract_identifier_with_def loop_body_def accumulate_step_def
  capture_step_def classify_step_def chain_step_def index_jump_def first_chr_def
  append_chr_def advance_def initial_state_def substr_def determineidtype_def
  char_value_def isskpchr_def isunchainablechr_def skpchrs_def nonchainablechrs_def

lemma unat_advance:
  fixes w :: "64 word"
  assumes "unat w < 2 ^ 64 - 1"
  shows "unat (w + 1) = unat w + 1"
  using assms by (simp add: unat_word_ariths)

lemma isskpchr_not_special:
  assumes "isskpchr chr"
  shows "chr \<noteq> CHR 0x22" and "chr \<noteq> CHR ''#''" and "determineidtype chr = Symbolic"
    and "\<not> isunchainablechr chr"
  using assms
  by (auto simp: isskpchr_def skpchrs_def determineidtype_def char_value_def
      isunchainablechr_def nonchainablechrs_def)

lemma classify_step_skip:
  assumes "isskpchr chr"
    and "if nextid st = [] then idtype st = Unknown else idtype st = Symbolic"
  shows "classify_step chr st = (Continue, advance (append_chr chr (st\<lparr>idtype := Symbolic\<rparr>)))"
proof (cases "nextid st = []")
  case True
  with assms(2) isskpchr_not_special(3) [OF assms(1)] show ?thesis
    by (simp add: classify_step_def)
next
  case False
  with assms(2) have ty: "idtype st = Symbolic" by simp
  have "st\<lparr>idtype := idtype st\<rparr> = st" by simp
  then have same: "st\<lparr>idtype := Symbolic\<rparr> = st" by (simp only: ty)
  show ?thesis
    using ty isskpchr_not_special(3) [OF assms(1)]
    by (simp add: classify_step_def chain_step_def same)
qed

lemma loop_body_live:
  assumes "\<not> isstr st" and "\<not> iscomment st"
  shows "loop_body jump chr st =
     (if isunchainablechr chr then
        (Break, if nextidend st = 0 then append_chr chr (advance st) else st)
      else if isskpchr chr then classify_step chr st
      else if nextid st \<noteq> [] then (Break, st)
      else (Continue, advance st))"
  using assms isskpchr_not_special(1,2) [of chr]
  by (auto simp: loop_body_def accumulate_step_def capture_step_def)

lemma loop_body_scanning:
  assumes "scanning st"
  shows "loop_body jump chr st =
     (if isunchainablechr chr then
        (Break, if nextidend st = 0 then append_chr chr (advance st) else st)
      else if isskpchr chr then (Continue, advance (append_chr chr (st\<lparr>idtype := Symbolic\<rparr>)))
      else if nextid st \<noteq> [] then (Break, st)
      else (Continue, advance st))"
proof -
  from assms have flags: "\<not> isstr st" "\<not> iscomment st"
    and ty: "if nextid st = [] then idtype st = Unknown else idtype st = Symbolic"
    by (auto simp: scanning_def split: if_splits)
  show ?thesis
    by (simp add: loop_body_live [OF flags] classify_step_skip [OF _ ty])
qed

lemma loop_body_Continue:
  assumes "scanning st" and "unat (nextidend st) < 2 ^ 64 - 1"
    and "loop_body jump chr st = (Continue, st')"
  shows "scanning st' \<and> unat (nextidend st') = unat (nextidend st) + 1"
  using assms(3) assms(1) unat_advance [OF assms(2)]
  unfolding loop_body_scanning [OF assms(1)]
  by (auto simp: scanning_def advance_def append_chr_def isskpchr_def split: if_splits)

lemma loop_body_Break:
  assumes "scanning st" and "unat (nextidend st) < 2 ^ 64 - 1"
    and "loop_body jump chr st = (Break, st')"
  shows "\<not> isstr st' \<and> \<not> iscomment st' \<and> unat (nextidend st') \<le> unat (nextidend st) + 1
         \<and> lexeme_shape (nextid st')"
proof -
  have empty: "nextid st = []" if "nextidend st = 0"
    using assms(1) that by (simp add: scanning_def)
  show ?thesis
    using assms(3) assms(1) unat_advance [OF assms(2)] empty
    unfolding loop_body_scanning [OF assms(1)]
    by (auto simp: scanning_def advance_def append_chr_def lexeme_shape_def split: if_splits)
qed

lemma scanning_lexeme_shape:
  assumes "scanning st" shows "lexeme_shape (nextid st)"
  using assms by (auto simp: scanning_def lexeme_shape_def split: if_splits)

lemma for_loop_scanning:
  assumes "scanning st" and "unat (nextidend st) + length cs < 2 ^ 64"
  shows "\<not> isstr (for_loop jump cs st) \<and> \<not> iscomment (for_loop jump cs st)
         \<and> unat (nextidend (for_loop jump cs st)) \<le> unat (nextidend st) + length cs
         \<and> lexeme_shape (nextid (for_loop jump cs st))"
  using assms
proof (induction cs arbitrary: st)
  case Nil
  then show ?case
    using scanning_lexeme_shape [of st] by (simp add: scanning_def)
next
  case (Cons chr cs)
  from Cons.prems have room: "unat (nextidend st) < 2 ^ 64 - 1" by simp
  obtain fl st' where body: "loop_body jump chr st = (fl, st')"
    by (cases "loop_body jump chr st")
  show ?case
  proof (cases fl)
    case Break
    with body loop_body_Break [OF Cons.prems(1) room, of jump chr st']
    show ?thesis by simp
  next
    case Continue
    with body loop_body_Continue [OF Cons.prems(1) room, of jump chr st']
    have st': "scanning st'" "unat (nextidend st') = unat (nextidend st) + 1"
      by simp_all
    with Cons.prems have "unat (nextidend st') + length cs < 2 ^ 64" by simp
    from Cons.IH [OF st'(1) this] st'(2) body Continue
    show ?thesis by simp
  qed
qed

lemma for_loop_jump_irrelevant:
  assumes "scanning st" and "unat (nextidend st) + length cs < 2 ^ 64"
  shows "for_loop jump cs st = for_loop jump' cs st"
  using assms
proof (induction cs arbitrary: st)
  case Nil
  show ?case by simp
next
  case (Cons chr cs)
  from Cons.prems have room: "unat (nextidend st) < 2 ^ 64 - 1" by simp
  have same: "loop_body jump chr st = loop_body jump' chr st"
    by (simp only: loop_body_scanning [OF Cons.prems(1)])
  obtain fl st' where body: "loop_body jump chr st = (fl, st')"
    by (cases "loop_body jump chr st")
  show ?case
  proof (cases fl)
    case Break
    with body same show ?thesis by simp
  next
    case Continue
    with body loop_body_Continue [OF Cons.prems(1) room, of jump chr st']
    have st': "scanning st'" "unat (nextidend st') = unat (nextidend st) + 1"
      by simp_all
    with Cons.prems have "unat (nextidend st') + length cs < 2 ^ 64" by simp
    from Cons.IH [OF st'(1) this] body same Continue
    show ?thesis by simp
  qed
qed

lemma scanning_initial_state: "scanning initial_state"
  by (simp add: scanning_def initial_state_def)

text \<open>
  Claim C7. For each of the four inputs \<open>(\<close>, \<open>)\<close>, \<open>[\<close> and \<open>]\<close> as the whole content of
  \<^verbatim>\<open>line\<close>, and for every separator, \<^verbatim>\<open>extract_identifier\<close> returns that single character
  and leaves \<^verbatim>\<open>line\<close> empty.
\<close>

theorem extract_identifier_unchainable:
  "extract_identifier ''('' separator = Inr (''('', [])
   \<and> extract_identifier '')'' separator = Inr ('')'', [])
   \<and> extract_identifier ''['' separator = Inr (''['', [])
   \<and> extract_identifier '']'' separator = Inr ('']'', [])"
  by (simp add: scanner_defs)

text \<open>
  Claim C1 says that a double quote starts string capture, that every character up to the
  closing quote is then accumulated verbatim into the returned lexeme, and that an
  unterminated string is consumed to the end of the input. The source does not do so. On
  the five characters quote, a, space, b, quote it skips the quote and the a as ordinary
  characters, accumulates the space, and stops in front of the b: the lexeme is one space
  and \<^verbatim>\<open>line\<close> keeps the b and the closing quote. On the unterminated quote, a, space, b
  the lexeme is again one space, and the b is left in \<^verbatim>\<open>line\<close>.
\<close>

theorem extract_identifier_quoted_string:
  "extract_identifier [CHR 0x22, CHR ''a'', CHR '' '', CHR ''b'', CHR 0x22] separator
     = Inr ('' '', [CHR ''b'', CHR 0x22])
   \<and> extract_identifier [CHR 0x22, CHR ''a'', CHR '' '', CHR ''b''] separator
     = Inr ('' '', ''b'')"
  by (simp add: scanner_defs)

text \<open>
  Claim C2. For every input line (a \<^verbatim>\<open>std::string\<close>, so shorter than \<open>2 ^ 64\<close>) and every
  separator, \<^verbatim>\<open>extract_identifier\<close> returns, and the returned lexeme is the empty string,
  or a single character among \<open>(\<close>, \<open>)\<close>, \<open>[\<close>, \<open>]\<close>, or a nonempty string of spaces,
  tabs and NUL characters only. No letter, digit, quote character or \<open>#\<close> is ever in a
  returned lexeme, and the string-capture flag \<^verbatim>\<open>isstr\<close> is never set: it is false after
  every number \<open>n\<close> of iterations (the loop run on the first \<open>n\<close> characters of the line
  stops in the state that the loop on the whole line has after \<open>n\<close> iterations, or at its
  \<^verbatim>\<open>break\<close> if that comes earlier).
\<close>

theorem extract_identifier_lexeme_shape:
  assumes "length line < 2 ^ 64"
  shows "\<exists>lexeme rest.
           extract_identifier line separator = Inr (lexeme, rest)
           \<and> (lexeme = []
                \<or> lexeme \<in> {''('', '')'', ''['', '']''}
                \<or> (lexeme \<noteq> [] \<and> set lexeme \<subseteq> {CHR '' '', CHR 0x09, CHR 0x00}))
           \<and> set lexeme \<inter>
                set (''abcdefghijklmnopqrstuvwxyzABCDEFGHIJKLMNOPQRSTUVWXYZ0123456789#''
                     @ [CHR 0x22, CHR 0x27]) = {}
           \<and> (\<forall>n. \<not> isstr (for_loop index_jump (take n line) initial_state))"
proof -
  let ?st = "for_loop index_jump line initial_state"
  from assms have room: "unat (nextidend initial_state) + length line < 2 ^ 64"
    by (simp add: initial_state_def)
  from for_loop_scanning [OF scanning_initial_state room, of index_jump]
  have cut: "unat (nextidend ?st) \<le> length line"
    and shape: "lexeme_shape (nextid ?st)"
    by (simp_all add: initial_state_def)
  have flag: "\<not> isstr (for_loop index_jump (take n line) initial_state)" for n
  proof -
    from assms have "unat (nextidend initial_state) + length (take n line) < 2 ^ 64"
      by (simp add: initial_state_def)
    from for_loop_scanning [OF scanning_initial_state this, of index_jump]
    show ?thesis by simp
  qed
  from cut have res: "extract_identifier line separator
      = Inr (nextid ?st, drop (unat (nextidend ?st)) line)"
    by (simp add: extract_identifier_def extract_identifier_with_def substr_def Let_def)
  from shape have s1: "nextid ?st = []
      \<or> nextid ?st \<in> {''('', '')'', ''['', '']''}
      \<or> (nextid ?st \<noteq> [] \<and> set (nextid ?st) \<subseteq> {CHR '' '', CHR 0x09, CHR 0x00})"
    by (auto simp: lexeme_shape_def isunchainablechr_def nonchainablechrs_def skpchrs_def)
  then have s2: "set (nextid ?st) \<inter>
      set (''abcdefghijklmnopqrstuvwxyzABCDEFGHIJKLMNOPQRSTUVWXYZ0123456789#''
           @ [CHR 0x22, CHR 0x27]) = {}"
    by auto
  show ?thesis
    using res s1 s2 flag by blast
qed

theorem extract_identifier_lexeme_shape_witness:
  "length ''ab  c'' < (2::nat) ^ 64
   \<and> extract_identifier ''ab  c'' CHR '' '' = Inr (''  '', ''c'')
   \<and> (\<exists>lexeme rest.
         extract_identifier ''ab  c'' CHR '' '' = Inr (lexeme, rest)
         \<and> set lexeme \<inter>
              set (''abcdefghijklmnopqrstuvwxyzABCDEFGHIJKLMNOPQRSTUVWXYZ0123456789#''
                   @ [CHR 0x22, CHR 0x27]) = {})"
proof -
  have h: "length ''ab  c'' < (2::nat) ^ 64" by simp
  have e: "extract_identifier ''ab  c'' CHR '' '' = Inr (''  '', ''c'')"
    by code_simp
  from extract_identifier_lexeme_shape [OF h, of "CHR '' ''"] h e
  show ?thesis by blast
qed

text \<open>
  Claim C10. For every input line (a \<^verbatim>\<open>std::string\<close>, so shorter than \<open>2 ^ 64\<close>), the cut
  index \<^verbatim>\<open>nextidend\<close> that the loop accumulates is at most the length of the line, so
  \<^verbatim>\<open>substr\<close> is in range and \<^verbatim>\<open>extract_identifier\<close> does not throw, and \<^verbatim>\<open>line\<close> is left
  equal to a suffix of its original value. The branch that advances the index by the
  numeric value of a character lies in the string-capture code, which is never reached:
  \<^verbatim>\<open>isstr\<close> is false after every number of iterations, and the final state and the
  result are the same whatever stands in the place of that branch.
\<close>

theorem extract_identifier_cut_in_range:
  assumes "length line < 2 ^ 64"
  shows "unat (nextidend (for_loop index_jump line initial_state)) \<le> length line
         \<and> (\<exists>lexeme rest.
               extract_identifier line separator = Inr (lexeme, rest)
               \<and> rest = drop (unat (nextidend (for_loop index_jump line initial_state))) line
               \<and> suffix rest line)
         \<and> (\<forall>jump n. \<not> isstr (for_loop jump (take n line) initial_state))
         \<and> (\<forall>jump. for_loop jump line initial_state = for_loop index_jump line initial_state)
         \<and> (\<forall>jump. extract_identifier_with jump line separator
                     = extract_identifier line separator)"
proof -
  let ?st = "for_loop index_jump line initial_state"
  from assms have room: "unat (nextidend initial_state) + length line < 2 ^ 64"
    by (simp add: initial_state_def)
  from for_loop_scanning [OF scanning_initial_state room, of index_jump]
  have cut: "unat (nextidend ?st) \<le> length line"
    by (simp add: initial_state_def)
  have flag: "\<not> isstr (for_loop jump (take n line) initial_state)" for jump n
  proof -
    from assms have "unat (nextidend initial_state) + length (take n line) < 2 ^ 64"
      by (simp add: initial_state_def)
    from for_loop_scanning [OF scanning_initial_state this, of jump]
    show ?thesis by simp
  qed
  from cut have res: "extract_identifier line separator
      = Inr (nextid ?st, drop (unat (nextidend ?st)) line)"
    by (simp add: extract_identifier_def extract_identifier_with_def substr_def Let_def)
  have suf: "suffix (drop (unat (nextidend ?st)) line) line"
    by (rule suffix_drop)
  have dead: "for_loop jump line initial_state = ?st" for jump
    by (rule for_loop_jump_irrelevant [OF scanning_initial_state room])
  then have dead': "extract_identifier_with jump line separator
      = extract_identifier line separator" for jump
    by (simp only: extract_identifier_def extract_identifier_with_def dead [of jump])
  show ?thesis
    using cut res suf flag dead dead' by blast
qed

theorem extract_identifier_cut_in_range_witness:
  "length ''ab  c'' < (2::nat) ^ 64
   \<and> unat (nextidend (for_loop index_jump ''ab  c'' initial_state)) = 4
   \<and> unat (nextidend (for_loop index_jump ''ab  c'' initial_state)) \<le> length ''ab  c''
   \<and> (\<exists>lexeme rest.
         extract_identifier ''ab  c'' CHR '' '' = Inr (lexeme, rest) \<and> suffix rest ''ab  c'')"
proof -
  have h: "length ''ab  c'' < (2::nat) ^ 64" by simp
  have e: "unat (nextidend (for_loop index_jump ''ab  c'' initial_state)) = 4"
    by code_simp
  from extract_identifier_cut_in_range [OF h, of "CHR '' ''"] h e
  show ?thesis by blast
qed

section \<open>Properties of the tokenizer driver, the memory tracker and the entry point\<close>

text \<open>
  Claim C3. \<^verbatim>\<open>tokenize\<close> applied to the empty source string returns a sequence of exactly
  one token, whose type is EndOfFile and whose value is the empty string, whatever the
  classifier is.
\<close>

theorem tokenize_empty_source:
  "tokenize determine_token_type [] = Some (Inr [\<lparr>type = EndOfFile, value = []\<rparr>])"
  by (simp add: tokenize_def tokenize_loop.simps)

lemma pointers_create_all:
  "pointers (fold (\<lambda>pointer m. snd (create pointer m)) ps m) = pointers m @ ps"
  by (induction ps arbitrary: m) (simp_all add: create_def)

text \<open>
  Claim C9. Starting from a newly constructed tracker, after \<open>N\<close> calls of \<^verbatim>\<open>create\<close> with
  no \<^verbatim>\<open>clear\<close> in between (\<open>ps\<close> lists the \<open>N\<close> addresses that the allocations returned),
  \<^verbatim>\<open>pointers_count\<close> is \<open>N\<close>; after a call of \<^verbatim>\<open>clear\<close>, on any tracker, it is 0.
\<close>

theorem pointers_count_create_clear:
  "pointers_count (fold (\<lambda>pointer m. snd (create pointer m)) ps Memory_new) = int (length ps)
   \<and> pointers_count (snd (clear m)) = 0
   \<and> pointers_count
        (snd (clear (fold (\<lambda>pointer m. snd (create pointer m)) ps Memory_new))) = 0"
  by (simp add: pointers_count_def pointers_create_all Memory_new_def clear_def)

lemma info_result:
  "info c = (0, c\<lparr>color := FOREGROUND_RED_GREEN_BLUE, cout := cout c @ banner\<rparr>)"
  by (simp add: info_def Let_def SetConsoleColor_def write_cout_def banner_def endl_def
      DEFAULT_LANGUAGE_NAME_def ZYLO_VERSION_def)

lemma init_result:
  "init c = (0, c\<lparr>title := DEFAULT_LANGUAGE_NAME, screen_clears := screen_clears c + 1,
                  color := FOREGROUND_RED_GREEN_BLUE, cout := cout c @ banner\<rparr>)"
  by (simp add: init_def Let_def info_result SetConsoleTitleA_def system_cls_def)

lemma main_result:
  "fst (main c) = 0
   \<and> cerr (snd (main c)) = cerr c
   \<and> cout (snd (main c))
       = cout c @ banner @ ''>>> '' @ ''You entered: ''
           @ takeWhile (\<lambda>ch. ch \<noteq> CHR 0x0A) (cin c) @ [CHR 0x0A]"
  by (simp add: main_def init_result input_def getline_def Let_def write_cout_def
      SetConsoleColor_def endl_def)

text \<open>
  Claim C8. \<^verbatim>\<open>zylo_terminal::init\<close> always returns 0, so the failure branch of \<^verbatim>\<open>main\<close>
  (a message on the error stream and exit status 1) is unreachable: on every console,
  \<^verbatim>\<open>main\<close> exits with status 0 and writes nothing to the error stream. For every input
  line \<open>s\<close>, the process writes the banner, the prompt, and \<open>You entered: \<close> followed by
  \<open>s\<close> and a newline to standard output, and exits with status 0.
\<close>

theorem main_echoes_line:
  assumes "CHR 0x0A \<notin> set s"
  shows "fst (init c) = 0
         \<and> (\<forall>c'. fst (main c') = 0 \<and> cerr (snd (main c')) = cerr c')
         \<and> fst (main (c\<lparr>cin := s @ CHR 0x0A # rest\<rparr>)) = 0
         \<and> cout (snd (main (c\<lparr>cin := s @ CHR 0x0A # rest\<rparr>)))
             = cout c @ banner @ ''>>> '' @ ''You entered: '' @ s @ [CHR 0x0A]"
proof -
  have line: "takeWhile (\<lambda>ch. ch \<noteq> CHR 0x0A) (s @ CHR 0x0A # rest) = s"
    using assms by (induction s) auto
  show ?thesis
    using main_result [of "c\<lparr>cin := s @ CHR 0x0A # rest\<rparr>"] main_result
    by (simp add: init_result line)
qed

theorem main_echoes_line_witness:
  "CHR 0x0A \<notin> set ''hello''
   \<and> main \<lparr>title = [], screen_clears = 0, color = WHITE, cout = [], cerr = [],
            cin = ''hello'' @ [CHR 0x0A]\<rparr>
       = (0, \<lparr>title = ''Zylo'', screen_clears = 1, color = FOREGROUND_RED_GREEN_BLUE,
               cout = banner @ ''>>> You entered: hello'' @ [CHR 0x0A], cerr = [],
               cin = []\<rparr>)
   \<and> cout (snd (main \<lparr>title = [], screen_clears = 0, color = WHITE, cout = [], cerr = [],
                       cin = ''hello'' @ [CHR 0x0A]\<rparr>))
       = banner @ ''>>> You entered: hello'' @ [CHR 0x0A]"
proof -
  have h: "CHR 0x0A \<notin> set ''hello''" by simp
  have run: "main \<lparr>title = [], screen_clears = 0, color = WHITE, cout = [], cerr = [],
            cin = ''hello'' @ [CHR 0x0A]\<rparr>
       = (0, \<lparr>title = ''Zylo'', screen_clears = 1, color = FOREGROUND_RED_GREEN_BLUE,
               cout = banner @ ''>>> You entered: hello'' @ [CHR 0x0A], cerr = [],
               cin = []\<rparr>)"
    by (simp add: main_def init_result input_def getline_def Let_def write_cout_def
        SetConsoleColor_def endl_def DEFAULT_LANGUAGE_NAME_def)
  from main_echoes_line [OF h, of
      "\<lparr>title = [], screen_clears = 0, color = WHITE, cout = [], cerr = [], cin = []\<rparr>" "[]"]
    h run
  show ?thesis by simp
qed

end
